theory Spec2Isabelle
  imports Main "HOL-Library.AList"
begin

section \<open>Values and dictionaries\<close>

text \<open>
  The library \<^verbatim>\<open>mongo_doc\<close> maps Python objects to MongoDB documents. A field value is
  one of the BSON-representable Python values below; floats, tuples, dates and byte
  strings are not part of the value universe. A Python \<^verbatim>\<open>dict\<close> is an association
  list in insertion order; a well-formed one has pairwise distinct keys.
\<close>

type_synonym oid = nat

datatype val =
    VNone
  | VBool bool
  | VInt int
  | VStr string
  | VOid oid
  | VList "val list"
  | VDict "(string \<times> val) list"

type_synonym dict = "(string \<times> val) list"

text \<open>
  Python's \<^verbatim>\<open>==\<close> on these values: \<^verbatim>\<open>True == 1\<close> holds (\<^verbatim>\<open>bool\<close> is a subclass of
  \<^verbatim>\<open>int\<close>), lists are compared position by position and dicts as mappings, whatever the
  insertion order.
\<close>

fun py_eq :: "val \<Rightarrow> val \<Rightarrow> bool" where
  "py_eq VNone VNone = True"
| "py_eq (VBool a) (VBool b) = (a = b)"
| "py_eq (VBool a) (VInt j) = ((if a then 1 else 0) = j)"
| "py_eq (VInt i) (VBool b) = (i = (if b then 1 else 0))"
| "py_eq (VInt i) (VInt j) = (i = j)"
| "py_eq (VStr s) (VStr t) = (s = t)"
| "py_eq (VOid m) (VOid n) = (m = n)"
| "py_eq (VList xs) (VList ys) = list_all2 py_eq xs ys"
| "py_eq (VDict xs) (VDict ys) =
     (length xs = length ys \<and>
      list_all (\<lambda>kv. list_ex (\<lambda>kw. fst kv = fst kw \<and> py_eq (snd kv) (snd kw)) ys) xs)"
| "py_eq _ _ = False"

text \<open>\<^verbatim>\<open>d.update(other)\<close>: an existing key keeps its position, a new key is appended.\<close>

definition dict_update :: "dict \<Rightarrow> dict \<Rightarrow> dict" where
  "dict_update d other = fold (\<lambda>kv acc. AList.update (fst kv) (snd kv) acc) other d"

text \<open>The runtime classes that a schema rule can name, and \<^verbatim>\<open>isinstance\<close>.\<close>

datatype ty = TNoneType | TBool | TInt | TStr | TObjectId | TList | TDict

fun type_of :: "val \<Rightarrow> ty" where
  "type_of VNone = TNoneType"
| "type_of (VBool _) = TBool"
| "type_of (VInt _) = TInt"
| "type_of (VStr _) = TStr"
| "type_of (VOid _) = TObjectId"
| "type_of (VList _) = TList"
| "type_of (VDict _) = TDict"

definition isinstance :: "val \<Rightarrow> ty \<Rightarrow> bool" where
  "isinstance v t = (type_of v = t \<or> (type_of v = TBool \<and> t = TInt))"

section \<open>The backing collection\<close>

text \<open>
  The pymongo collection is an external collaborator. It is modelled as the list of its
  stored records in insertion order, a counter from which identities are generated, and
  a log of the operations issued against it. A filter is a dict of field/value pairs
  matched by equality: a stored array also matches a value it contains, and a null
  filter value also matches a record without the field. Query operators (\<^verbatim>\<open>$in\<close>,
  \<^verbatim>\<open>$gt\<close>) and dotted paths are outside the model.
\<close>

datatype store_op =
    FindOne dict "string list option"
  | Find dict
  | InsertOne dict
  | UpdateOne dict dict
  | DeleteMany dict

record mongo_collection =
  docs :: "dict list"
  next_oid :: oid
  oplog :: "store_op list"

definition match_value :: "val \<Rightarrow> val \<Rightarrow> bool" where
  "match_value stored q =
     (stored = q \<or> (case stored of VList xs \<Rightarrow> q \<in> set xs | _ \<Rightarrow> False))"

definition matches :: "dict \<Rightarrow> dict \<Rightarrow> bool" where
  "matches flt d =
     list_all (\<lambda>kq. case map_of d (fst kq) of
                       None \<Rightarrow> snd kq = VNone
                     | Some stored \<Rightarrow> match_value stored (snd kq)) flt"

text \<open>A projection \<^verbatim>\<open>{key: 1}\<close> keeps the identity and the listed keys.\<close>

definition project :: "string list option \<Rightarrow> dict \<Rightarrow> dict" where
  "project proj d =
     (case proj of
        None \<Rightarrow> d
      | Some ks \<Rightarrow> filter (\<lambda>kv. fst kv = ''_id'' \<or> fst kv \<in> set ks) d)"

definition coll_find_one ::
  "dict \<Rightarrow> string list option \<Rightarrow> mongo_collection \<Rightarrow> dict option \<times> mongo_collection" where
  "coll_find_one flt proj col =
     (map_option (project proj) (List.find (matches flt) (docs col)),
      col\<lparr>oplog := oplog col @ [FindOne flt proj]\<rparr>)"

definition coll_find :: "dict \<Rightarrow> mongo_collection \<Rightarrow> dict list \<times> mongo_collection" where
  "coll_find flt col =
     (filter (matches flt) (docs col), col\<lparr>oplog := oplog col @ [Find flt]\<rparr>)"

text \<open>
  The exceptions the library raises or lets through. The payload of a field error is
  the field name that its message quotes.
\<close>

datatype error =
    MongoDBCollectionError
  | ValueError_invalid string
  | ValueError_required string
  | TypeError_field string ty ty
  | TypeError_isinstance
  | MongoFieldError string
  | ValueError_no_document val
  | AttributeError string
  | TypeError_not_callable string
  | DuplicateKeyError val

text \<open>
  \<^verbatim>\<open>insert_one\<close> adds a generated \<^verbatim>\<open>_id\<close> to the dict it is given when the dict has
  none and refuses an identity that is already stored. The caller's dict is changed in
  place, so the result is the outcome, the dict after the call and the collection.
\<close>

definition coll_insert_one ::
  "dict \<Rightarrow> mongo_collection \<Rightarrow> (error + val) \<times> dict \<times> mongo_collection" where
  "coll_insert_one d col =
     (case (case map_of d ''_id'' of
              Some i \<Rightarrow> (d, i, next_oid col)
            | None \<Rightarrow> (d @ [(''_id'', VOid (next_oid col))], VOid (next_oid col),
                       Suc (next_oid col))) of
        (d', i, n') \<Rightarrow>
          if list_ex (\<lambda>e. map_of e ''_id'' = Some i) (docs col)
          then (Inl (DuplicateKeyError i), d',
                col\<lparr>next_oid := n', oplog := oplog col @ [InsertOne d]\<rparr>)
          else (Inr i, d',
                col\<lparr>docs := docs col @ [d'], next_oid := n',
                    oplog := oplog col @ [InsertOne d]\<rparr>))"

text \<open>\<^verbatim>\<open>update_one(filter, {'$set': fields})\<close>: the first match is updated; the result
  is the matched count.\<close>

fun update_first :: "dict \<Rightarrow> dict \<Rightarrow> dict list \<Rightarrow> dict list \<times> nat" where
  "update_first flt upd [] = ([], 0)"
| "update_first flt upd (d # ds) =
     (if matches flt d then (dict_update d upd # ds, 1)
      else (case update_first flt upd ds of (ds', n) \<Rightarrow> (d # ds', n)))"

definition coll_update_one ::
  "dict \<Rightarrow> dict \<Rightarrow> mongo_collection \<Rightarrow> nat \<times> mongo_collection" where
  "coll_update_one flt upd col =
     (case update_first flt upd (docs col) of
        (ds, n) \<Rightarrow> (n, col\<lparr>docs := ds, oplog := oplog col @ [UpdateOne flt upd]\<rparr>))"

definition coll_delete_many :: "dict \<Rightarrow> mongo_collection \<Rightarrow> mongo_collection" where
  "coll_delete_many flt col =
     col\<lparr>docs := filter (\<lambda>d. \<not> matches flt d) (docs col),
         oplog := oplog col @ [DeleteMany flt]\<rparr>"


section \<open>Document classes\<close>

text \<open>
  A schema maps a field name to its rule. The rule's keys are read with
  \<^verbatim>\<open>field_schema.get('type')\<close>, \<^verbatim>\<open>field_schema.get('required', False)\<close> and
  \<^verbatim>\<open>'validator' in field_schema\<close>, so a rule may lack a type and a validator. A
  validator is a total predicate here; one that raises is outside the model. The rule's
  nested \<^verbatim>\<open>schema\<close> key is never read by the code.

  A collection class made by \<^verbatim>\<open>create_collection_class\<close> carries its collection (or
  \<^verbatim>\<open>None\<close>, as the base class \<^verbatim>\<open>Document\<close> does) and its optional schema; it has the
  method \<^verbatim>\<open>validate\<close> exactly when it has a schema. The class is the state that the
  operations thread: its collection changes under them.
\<close>

record field_schema =
  ftype :: "ty option"
  required :: bool
  validator :: "(val \<Rightarrow> bool) option"

type_synonym schema = "(string \<times> field_schema) list"

record doc_class =
  collection :: "mongo_collection option"
  schema :: "schema option"

text \<open>
  Modelled from the spec: \<^verbatim>\<open>BaseDict\<close> (the spec's AttributeMapping), the base class of
  \<^verbatim>\<open>Document\<close>, is not among the source files. By the spec a named field and the key of
  the mapping are the same storage, so an instance is its \<^verbatim>\<open>__dict__\<close>: reading an
  attribute is a lookup, assigning one is \<^verbatim>\<open>AList.update\<close>, \<^verbatim>\<open>del\<close> is
  \<^verbatim>\<open>AList.delete\<close>. Reading an attribute that is not there raises AttributeError, as
  for any Python object. The spec does not fix the truth value of an instance: a plain
  Python object is always truthy, a container is truthy when it has an entry. The
  container reading is taken, under which fewer instances are truthy.
\<close>

definition getattr :: "dict \<Rightarrow> string \<Rightarrow> error + val" where
  "getattr self name =
     (case map_of self name of None \<Rightarrow> Inl (AttributeError name) | Some v \<Rightarrow> Inr v)"

definition truthy :: "dict \<Rightarrow> bool" where
  "truthy self = (self \<noteq> [])"

text \<open>
  The methods read \<^verbatim>\<open>self.collection\<close>, \<^verbatim>\<open>self.schema\<close> and their own siblings
  (\<^verbatim>\<open>self.validate()\<close>, \<^verbatim>\<open>self._has_changed()\<close>) through the instance. The document's
  fields live in the instance's \<^verbatim>\<open>__dict__\<close>, which Python searches before the class, so
  a field of that name shadows the class attribute: the read yields the field's value.
  A field value has no collection methods (the method lookup raises AttributeError)
  and is not callable (the call raises TypeError).
\<close>

definition self_collection :: "doc_class \<Rightarrow> dict \<Rightarrow> val + mongo_collection option" where
  "self_collection cls self =
     (case map_of self ''collection'' of Some v \<Rightarrow> Inl v | None \<Rightarrow> Inr (collection cls))"

definition self_schema :: "doc_class \<Rightarrow> dict \<Rightarrow> val + schema option" where
  "self_schema cls self =
     (case map_of self ''schema'' of Some v \<Rightarrow> Inl v | None \<Rightarrow> Inr (schema cls))"

text \<open>\<^verbatim>\<open>x is None\<close> for an attribute read through the instance.\<close>

definition is_None :: "val + 'a option \<Rightarrow> bool" where
  "is_None x = (case x of Inl v \<Rightarrow> v = VNone | Inr c \<Rightarrow> c = None)"

text \<open>\<^verbatim>\<open>self.collection.name\<close>: the collection whose method is reached.\<close>

definition collection_method :: "doc_class \<Rightarrow> dict \<Rightarrow> string \<Rightarrow> error + mongo_collection" where
  "collection_method cls self name =
     (case self_collection cls self of
        Inr (Some col) \<Rightarrow> Inr col
      | _ \<Rightarrow> Inl (AttributeError name))"

text \<open>\<^verbatim>\<open>self.name(...)\<close> for a method \<open>name\<close> of the class: the exception of the call
  itself, when a field shadows the method.\<close>

definition self_method :: "dict \<Rightarrow> string \<Rightarrow> error option" where
  "self_method self name =
     (case map_of self name of Some v \<Rightarrow> Some (TypeError_not_callable name) | None \<Rightarrow> None)"

text \<open>
  \<^verbatim>\<open>Document.__init__(*args, **kwargs)\<close>. The loop that replaces an embedded
  \<^verbatim>\<open>Document\<close> by its \<^verbatim>\<open>__dict__\<close> is the identity on this value universe, where an
  embedded document is a \<^const>\<open>VDict\<close> already.
\<close>

definition Document_init :: "val list \<Rightarrow> dict \<Rightarrow> dict" where
  "Document_init args kwargs =
     (let self = (if ''_id'' \<notin> set (map fst kwargs) then [(''_id'', VNone)] else []);
          as_dict = (case args of VDict d # _ \<Rightarrow> d | _ \<Rightarrow> kwargs)
      in dict_update self as_dict)"

subsection \<open>Schema validation\<close>

definition dict_get :: "dict \<Rightarrow> string \<Rightarrow> val" where
  "dict_get d k = (case map_of d k of None \<Rightarrow> VNone | Some v \<Rightarrow> v)"

fun validate_fields :: "schema \<Rightarrow> dict \<Rightarrow> error + unit" where
  "validate_fields [] self = Inr ()"
| "validate_fields ((field_name, field_schema) # rest) self =
     (let field_value = dict_get self field_name;
          field_type = ftype field_schema;
          field_required = required field_schema
      in if (case validator field_schema of None \<Rightarrow> False | Some f \<Rightarrow> \<not> f field_value)
         then Inl (ValueError_invalid field_name)
         else if field_required \<and> field_value = VNone
         then Inl (ValueError_required field_name)
         else if field_value \<noteq> VNone
         then (case field_type of
                 None \<Rightarrow> Inl TypeError_isinstance
               | Some t \<Rightarrow>
                   if \<not> isinstance field_value t
                   then Inl (TypeError_field field_name t (type_of field_value))
                   else validate_fields rest self)
         else validate_fields rest self)"

fun validate_unknown :: "schema \<Rightarrow> string list \<Rightarrow> error + unit" where
  "validate_unknown sch [] = Inr ()"
| "validate_unknown sch (field_name # rest) =
     (if field_name \<noteq> ''_id'' \<and> field_name \<notin> set (map fst sch)
      then Inl (MongoFieldError field_name)
      else validate_unknown sch rest)"

definition validate :: "schema \<Rightarrow> dict \<Rightarrow> error + unit" where
  "validate sch self =
     (case validate_fields sch self of
        Inl e \<Rightarrow> Inl e
      | Inr _ \<Rightarrow> validate_unknown sch (map fst self))"

text \<open>
  When a field named \<^verbatim>\<open>schema\<close> shadows the class's schema, \<^verbatim>\<open>_validate\<close> runs on
  the field's value \<open>v\<close>: \<^verbatim>\<open>v.items()\<close> needs a dict, and so does each rule
  (\<^verbatim>\<open>field_schema.get\<close>). A rule's \<^verbatim>\<open>validator\<close> entry is a value and not callable, its
  \<^verbatim>\<open>required\<close> entry is read by its truth value, and its \<^verbatim>\<open>type\<close> entry is a value or
  absent, so that \<^verbatim>\<open>isinstance\<close> raises TypeError on any non-null field value.
\<close>

fun py_truthy :: "val \<Rightarrow> bool" where
  "py_truthy VNone = False"
| "py_truthy (VBool b) = b"
| "py_truthy (VInt i) = (i \<noteq> 0)"
| "py_truthy (VStr s) = (s \<noteq> [])"
| "py_truthy (VOid n) = True"
| "py_truthy (VList xs) = (xs \<noteq> [])"
| "py_truthy (VDict d) = (d \<noteq> [])"

fun validate_fields_val :: "dict \<Rightarrow> dict \<Rightarrow> error + unit" where
  "validate_fields_val [] self = Inr ()"
| "validate_fields_val ((field_name, field_schema) # rest) self =
     (case field_schema of
        VDict m \<Rightarrow>
          (let field_value = dict_get self field_name;
               field_required = (case map_of m ''required'' of None \<Rightarrow> False | Some r \<Rightarrow> py_truthy r)
           in if map_of m ''validator'' \<noteq> None
              then Inl (TypeError_not_callable ''validator'')
              else if field_required \<and> field_value = VNone
              then Inl (ValueError_required field_name)
              else if field_value \<noteq> VNone then Inl TypeError_isinstance
              else validate_fields_val rest self)
      | _ \<Rightarrow> Inl (AttributeError ''get''))"

fun validate_unknown_val :: "dict \<Rightarrow> string list \<Rightarrow> error + unit" where
  "validate_unknown_val d [] = Inr ()"
| "validate_unknown_val d (field_name # rest) =
     (if field_name \<noteq> ''_id'' \<and> field_name \<notin> set (map fst d)
      then Inl (MongoFieldError field_name)
      else validate_unknown_val d rest)"

definition validate_val :: "val \<Rightarrow> dict \<Rightarrow> error + unit" where
  "validate_val v self =
     (case v of
        VDict d \<Rightarrow>
          (case validate_fields_val d self of
             Inl e \<Rightarrow> Inl e
           | Inr _ \<Rightarrow> validate_unknown_val d (map fst self))
      | _ \<Rightarrow> Inl (AttributeError ''items''))"

text \<open>
  The validation step of \<^verbatim>\<open>save\<close>: \<^verbatim>\<open>if self.schema is not None: self.validate()\<close>.
  The method \<^verbatim>\<open>validate\<close> exists on a class with a schema only, and \<^verbatim>\<open>_validate\<close>
  reads \<^verbatim>\<open>self.schema\<close> through the instance again.
\<close>

definition run_validation :: "doc_class \<Rightarrow> dict \<Rightarrow> error + unit" where
  "run_validation cls self =
     (if is_None (self_schema cls self) then Inr ()
      else (case self_method self ''validate'' of
              Some e \<Rightarrow> Inl e
            | None \<Rightarrow>
                (case schema cls of
                   None \<Rightarrow> Inl (AttributeError ''validate'')
                 | Some sch \<Rightarrow>
                     (case self_schema cls self of
                        Inl v \<Rightarrow> validate_val v self
                      | Inr _ \<Rightarrow> validate sch self))))"

subsection \<open>Change detection and save\<close>

text \<open>
  \<^verbatim>\<open>Document._has_changed\<close>: one \<^verbatim>\<open>find_one({'_id': self._id}, {key: 1})\<close> per field
  other than \<^verbatim>\<open>_id\<close>; the field is reported when the record read back is non-empty,
  holds the key and holds a value that differs from the one in memory.
\<close>

fun has_changed_loop ::
  "doc_class \<Rightarrow> dict \<Rightarrow> dict \<Rightarrow> dict \<Rightarrow> (error + dict) \<times> doc_class" where
  "has_changed_loop cls self [] changed_fields = (Inr changed_fields, cls)"
| "has_changed_loop cls self ((key, value) # rest) changed_fields =
     (if key \<noteq> ''_id'' then
        (case collection_method cls self ''find_one'' of
           Inl e \<Rightarrow> (Inl e, cls)
         | Inr col \<Rightarrow>
             (case getattr self ''_id'' of
                Inl e \<Rightarrow> (Inl e, cls)
              | Inr i \<Rightarrow>
                  (case coll_find_one [(''_id'', i)] (Some [key]) col of
                     (result, col') \<Rightarrow>
                       if (case result of
                             None \<Rightarrow> False
                           | Some r \<Rightarrow>
                               r \<noteq> [] \<and>
                               (case map_of r key of
                                  None \<Rightarrow> False
                                | Some stored \<Rightarrow> \<not> py_eq stored value))
                       then has_changed_loop (cls\<lparr>collection := Some col'\<rparr>) self rest
                              (AList.update key value changed_fields)
                       else has_changed_loop (cls\<lparr>collection := Some col'\<rparr>) self rest
                              changed_fields)))
      else has_changed_loop cls self rest changed_fields)"

definition has_changed :: "doc_class \<Rightarrow> dict \<Rightarrow> (error + dict) \<times> doc_class" where
  "has_changed cls self = has_changed_loop cls self self []"

definition is_saved :: "doc_class \<Rightarrow> dict \<Rightarrow> (error + bool) \<times> doc_class" where
  "is_saved cls self =
     (case self_method self ''_has_changed'' of
        Some e \<Rightarrow> (Inl e, cls)
      | None \<Rightarrow>
          (case has_changed cls self of
             (Inl e, cls') \<Rightarrow> (Inl e, cls')
           | (Inr changed_fields, cls') \<Rightarrow> (Inr (changed_fields = []), cls')))"

text \<open>
  \<^verbatim>\<open>Document.save\<close>. In the insert path \<^verbatim>\<open>del self._id\<close> comes before the lookup of
  \<^verbatim>\<open>self.collection.insert_one\<close>. The result is the exception raised (\<^const>\<open>None\<close> when the method
  returns \<^verbatim>\<open>self\<close>), the instance after the call and the class after the call.
\<close>

definition save :: "doc_class \<Rightarrow> dict \<Rightarrow> error option \<times> dict \<times> doc_class" where
  "save cls self =
     (if is_None (self_collection cls self) then (Some MongoDBCollectionError, self, cls)
      else
        (case run_validation cls self of
           Inl e \<Rightarrow> (Some e, self, cls)
         | Inr _ \<Rightarrow>
             (case getattr self ''_id'' of
                Inl e \<Rightarrow> (Some e, self, cls)
              | Inr VNone \<Rightarrow>
                  (case collection_method cls (AList.delete ''_id'' self) ''insert_one'' of
                     Inl e \<Rightarrow> (Some e, AList.delete ''_id'' self, cls)
                   | Inr col \<Rightarrow>
                       (case coll_insert_one (AList.delete ''_id'' self) col of
                          (Inl e, d, col') \<Rightarrow> (Some e, d, cls\<lparr>collection := Some col'\<rparr>)
                        | (Inr inserted_id, d, col') \<Rightarrow>
                            (None, AList.update ''_id'' inserted_id d,
                             cls\<lparr>collection := Some col'\<rparr>)))
              | Inr i \<Rightarrow>
                  (case self_method self ''_has_changed'' of
                     Some e \<Rightarrow> (Some e, self, cls)
                   | None \<Rightarrow>
                       (case has_changed cls self of
                          (Inl e, cls') \<Rightarrow> (Some e, self, cls')
                        | (Inr changed_fields, cls') \<Rightarrow>
                            if changed_fields = [] then (None, self, cls')
                            else
                              (case collection_method cls' self ''update_one'' of
                                 Inl e \<Rightarrow> (Some e, self, cls')
                               | Inr col' \<Rightarrow>
                                   (case coll_update_one [(''_id'', i)] changed_fields col' of
                                      (matched_count, col'') \<Rightarrow>
                                        if matched_count = 0
                                        then (Some (ValueError_no_document i), self,
                                              cls'\<lparr>collection := Some col''\<rparr>)
                                        else (None, self,
                                              cls'\<lparr>collection := Some col''\<rparr>))))))))"

subsection \<open>Class-level operations\<close>

text \<open>
  \<^verbatim>\<open>bson.ObjectId(s)\<close> on a string: 24 hexadecimal digits, else \<^verbatim>\<open>InvalidId\<close>. The
  identity is the number the digits denote.
\<close>

definition hex_digit :: "char \<Rightarrow> nat option" where
  "hex_digit c =
     map_of (zip ''0123456789abcdefABCDEF''
                 [0, 1, 2, 3, 4, 5, 6, 7, 8, 9, 10, 11, 12, 13, 14, 15,
                  10, 11, 12, 13, 14, 15]) c"

definition ObjectId :: "string \<Rightarrow> oid option" where
  "ObjectId s =
     (if length s = 24 \<and> list_all (\<lambda>c. hex_digit c \<noteq> None) s
      then Some (fold (\<lambda>c n. 16 * n + (case hex_digit c of None \<Rightarrow> 0 | Some h \<Rightarrow> h)) s 0)
      else None)"

text \<open>
  \<^verbatim>\<open>Document.get_by_id\<close>: \<^verbatim>\<open>cls(cls.collection.find_one({'_id': bson.ObjectId(_id)}))\<close>,
  or \<^verbatim>\<open>None\<close> on \<^verbatim>\<open>InvalidId\<close>. The method \<^verbatim>\<open>cls.collection.find_one\<close> is looked up
  before its argument is evaluated.
\<close>

definition get_by_id :: "doc_class \<Rightarrow> string \<Rightarrow> (error + dict option) \<times> doc_class" where
  "get_by_id cls s =
     (case collection cls of
        None \<Rightarrow> (Inl (AttributeError ''find_one''), cls)
      | Some col \<Rightarrow>
          (case ObjectId s of
             None \<Rightarrow> (Inr None, cls)
           | Some n \<Rightarrow>
               (case coll_find_one [(''_id'', VOid n)] None col of
                  (result, col') \<Rightarrow>
                    (Inr (Some (Document_init
                                  [case result of None \<Rightarrow> VNone | Some d \<Rightarrow> VDict d] [])),
                     cls\<lparr>collection := Some col'\<rparr>))))"


text \<open>
  \<^verbatim>\<open>Document.find(**kwargs)\<close> and \<^verbatim>\<open>Document.delete(**kwargs)\<close> both compute the dict
  \<^verbatim>\<open>d\<close>: the value of the only keyword when it is a dict, else the keywords. \<^verbatim>\<open>find\<close>
  queries with \<^verbatim>\<open>d\<close>; \<^verbatim>\<open>delete\<close> calls \<^verbatim>\<open>delete_many(kwargs)\<close>.
\<close>

definition criteria :: "dict \<Rightarrow> dict" where
  "criteria kwargs = (case kwargs of [(k, VDict m)] \<Rightarrow> m | _ \<Rightarrow> kwargs)"

definition Document_find :: "doc_class \<Rightarrow> dict \<Rightarrow> (error + dict list) \<times> doc_class" where
  "Document_find cls kwargs =
     (let d = criteria kwargs in
      case collection cls of
        None \<Rightarrow> (Inl (AttributeError ''find''), cls)
      | Some col \<Rightarrow>
          (case coll_find d col of
             (items, col') \<Rightarrow>
               (Inr (map (\<lambda>item. Document_init [VDict item] []) items),
                cls\<lparr>collection := Some col'\<rparr>)))"

definition Document_delete :: "doc_class \<Rightarrow> dict \<Rightarrow> error option \<times> doc_class" where
  "Document_delete cls kwargs =
     (let d = criteria kwargs in
      case collection cls of
        None \<Rightarrow> (Some (AttributeError ''delete_many''), cls)
      | Some col \<Rightarrow> (None, cls\<lparr>collection := Some (coll_delete_many kwargs col)\<rparr>))"

section \<open>Connecting\<close>

text \<open>
  \<^verbatim>\<open>init_db(connection_str, database, retries, retry_delay)\<close>. The server is the outcome
  of the attempt with a given index: a client, a \<^verbatim>\<open>ServerSelectionTimeoutError\<close>, or
  another exception, which the loop does not catch. The trace records each attempt and
  each \<^verbatim>\<open>time.sleep\<close>; \<^verbatim>\<open>time.sleep\<close> raises ValueError on a negative length. When
  \<^verbatim>\<open>range(retries)\<close> is empty the loop binds no \<^verbatim>\<open>client\<close> and the assignment after it
  raises UnboundLocalError.
\<close>

datatype ('c, 'e) attempt = Connected 'c | ServerSelectionTimeoutError 'e | OtherError 'e

datatype 'e conn_error =
    MongoDBConnectionError 'e
  | Propagated 'e
  | SleepValueError
  | UnboundLocalError

datatype event = Attempt nat | Sleep int

fun init_db_loop ::
  "(nat \<Rightarrow> ('c, 'e) attempt) \<Rightarrow> int \<Rightarrow> int \<Rightarrow> nat \<Rightarrow> nat \<Rightarrow> event list
   \<Rightarrow> ('e conn_error + 'c) \<times> event list" where
  "init_db_loop server retries retry_delay 0 i tr = (Inl UnboundLocalError, tr)"
| "init_db_loop server retries retry_delay (Suc n) i tr =
     (case server i of
        Connected client \<Rightarrow> (Inr client, tr @ [Attempt i])
      | ServerSelectionTimeoutError e \<Rightarrow>
          if int i = retries - 1 then (Inl (MongoDBConnectionError e), tr @ [Attempt i])
          else if retry_delay ^ i < 0 then (Inl SleepValueError, tr @ [Attempt i])
          else init_db_loop server retries retry_delay n (Suc i)
                 (tr @ [Attempt i, Sleep (retry_delay ^ i)])
      | OtherError e \<Rightarrow> (Inl (Propagated e), tr @ [Attempt i]))"

definition init_db ::
  "(nat \<Rightarrow> ('c, 'e) attempt) \<Rightarrow> int \<Rightarrow> int \<Rightarrow> ('e conn_error + 'c) \<times> event list" where
  "init_db server retries retry_delay =
     init_db_loop server retries retry_delay (nat retries) 0 []"

fun is_attempt :: "event \<Rightarrow> bool" where
  "is_attempt (Attempt _) = True"
| "is_attempt (Sleep _) = False"

section \<open>Auxiliary notions for the statements\<close>

text \<open>The record that \<^verbatim>\<open>find_one({'_id': i})\<close> reads: the first stored match.\<close>

definition stored_record :: "mongo_collection \<Rightarrow> val \<Rightarrow> dict option" where
  "stored_record col i = List.find (matches [(''_id'', i)]) (docs col)"

text \<open>A field that the record read back holds with a value different from \<open>value\<close>.\<close>

definition field_changed :: "dict option \<Rightarrow> string \<Rightarrow> val \<Rightarrow> bool" where
  "field_changed r key value =
     (case r of
        None \<Rightarrow> False
      | Some d \<Rightarrow> (case map_of d key of None \<Rightarrow> False | Some stored \<Rightarrow> \<not> py_eq stored value))"

text \<open>
  The spec's \<^verbatim>\<open>changedFields()\<close>, in its words: the in-memory fields other than the
  identity whose value differs from, or is absent from, the stored record; all of them
  when the identity is null or matches no stored record.
\<close>

definition changedFields_spec :: "mongo_collection \<Rightarrow> dict \<Rightarrow> dict" where
  "changedFields_spec col self =
     (case (case map_of self ''_id'' of
              None \<Rightarrow> None
            | Some i \<Rightarrow> if i = VNone then None else stored_record col i) of
        None \<Rightarrow> filter (\<lambda>kv. fst kv \<noteq> ''_id'') self
      | Some d \<Rightarrow>
          filter (\<lambda>kv. fst kv \<noteq> ''_id'' \<and>
                       (case map_of d (fst kv) of
                          None \<Rightarrow> True
                        | Some stored \<Rightarrow> \<not> py_eq stored (snd kv))) self)"

text \<open>Whether the configured validation, if any, accepts the instance.\<close>

definition passes_validation :: "doc_class \<Rightarrow> dict \<Rightarrow> bool" where
  "passes_validation cls self = (run_validation cls self = Inr ())"









text \<open>The schedule of \<^verbatim>\<open>init_db\<close> up to attempt \<open>k\<close>: after each earlier attempt \<open>i\<close> a
  sleep of \<open>retry_delay ^ i\<close> seconds.\<close>

definition schedule :: "int \<Rightarrow> nat \<Rightarrow> event list" where
  "schedule retry_delay k =
     concat (map (\<lambda>i. [Attempt i, Sleep (retry_delay ^ i)]) [0..<k]) @ [Attempt k]"

text \<open>One iteration of the loop of \<^verbatim>\<open>_has_changed\<close>, given the record read back.\<close>

definition step_changed :: "dict option \<Rightarrow> string \<times> val \<Rightarrow> dict \<Rightarrow> dict" where
  "step_changed r kv acc = (if fst kv \<noteq> ''_id'' \<and> field_changed r (fst kv) (snd kv)
      then AList.update (fst kv) (snd kv) acc else acc)"


text \<open>The reads that \<^verbatim>\<open>_has_changed\<close> issues: one \<^verbatim>\<open>find_one\<close> per field other than the identity.\<close>

definition read_ops :: "val \<Rightarrow> dict \<Rightarrow> store_op list" where
  "read_ops i self =
     map (\<lambda>kv. FindOne [(''_id'', i)] (Some [fst kv])) (filter (\<lambda>kv. fst kv \<noteq> ''_id'') self)"




section \<open>Properties of the model\<close>

subsection \<open>Attributes read through the instance\<close>


lemma collection_method_bound:
  "map_of self ''collection'' = None \<Longrightarrow> collection cls = Some col \<Longrightarrow>
   collection_method cls self name = Inr col"
  by (simp add: collection_method_def self_collection_def)

lemma collection_method_cases:
  "(map_of self ''collection'' = None \<and> (\<exists>col. collection cls = Some col)) \<or>
   (\<forall>name. collection_method cls self name = Inl (AttributeError name))"
  by (auto simp: collection_method_def self_collection_def split: option.splits sum.splits)

lemma run_validation_unshadowed:
  "map_of self ''schema'' = None \<Longrightarrow> map_of self ''validate'' = None \<Longrightarrow>
   run_validation cls self = (case schema cls of None \<Rightarrow> Inr () | Some sch \<Rightarrow> validate sch self)"
  by (simp add: run_validation_def self_schema_def self_method_def is_None_def
      split: option.splits)

subsection \<open>Change detection\<close>


lemma map_of_filter_key:
  "map_of (filter (\<lambda>kv. Q (fst kv)) d) k = (if Q k then map_of d k else None)"
  by (induction d) auto

lemma project_key: "map_of (project (Some [key]) d) key = map_of d key"
proof -
  have "map_of (filter (\<lambda>kv. (\<lambda>k. k = ''_id'' \<or> k \<in> set [key]) (fst kv)) d) key =
        (if (\<lambda>k. k = ''_id'' \<or> k \<in> set [key]) key then map_of d key else None)"
    by (rule map_of_filter_key)
  then show ?thesis by (simp add: project_def)
qed

lemma stored_record_oplog [simp]:
  "stored_record (col\<lparr>oplog := l\<rparr>) i = stored_record col i"
  by (simp add: stored_record_def)

lemma find_one_changed:
  "(case map_option (project (Some [key])) r of
      None \<Rightarrow> False
    | Some d \<Rightarrow> d \<noteq> [] \<and> (case map_of d key of None \<Rightarrow> False | Some stored \<Rightarrow> \<not> py_eq stored value))
   = field_changed r key value"
proof (cases r)
  case None
  then show ?thesis by (simp add: field_changed_def)
next
  case (Some d)
  have "project (Some [key]) d \<noteq> []" if "map_of d key = Some w" for w
    using that project_key[of key d] by auto
  then show ?thesis using Some by (auto simp: field_changed_def project_key split: option.splits)
qed

lemma has_changed_loop_eq:
  assumes "map_of self ''collection'' = None" and "collection cls = Some col"
    and "getattr self ''_id'' = Inr i"
  shows "has_changed_loop cls self items acc =
     (Inr (fold (step_changed (stored_record col i)) items acc),
      cls\<lparr>collection := Some (col\<lparr>oplog := oplog col @
         map (\<lambda>kv. FindOne [(''_id'', i)] (Some [fst kv])) (filter (\<lambda>kv. fst kv \<noteq> ''_id'') items)\<rparr>)\<rparr>)"
  using assms
proof (induction items arbitrary: cls col acc)
  case Nil
  then show ?case by simp
next
  case (Cons kv items)
  obtain key v where kv: "kv = (key, v)" by (cases kv)
  show ?case
  proof (cases "key = ''_id''")
    case True
    then show ?thesis using Cons kv by (simp add: step_changed_def)
  next
    case False
    let ?col' = "col\<lparr>oplog := oplog col @ [FindOne [(''_id'', i)] (Some [key])]\<rparr>"
    let ?cls' = "cls\<lparr>collection := Some ?col'\<rparr>"
    have c: "collection ?cls' = Some ?col'" by simp
    have cm: "collection_method cls self ''find_one'' = Inr col"
      by (rule collection_method_bound[OF Cons.prems(1,2)])
    define res where "res = map_option (project (Some [key])) (stored_record col i)"
    have fo: "coll_find_one [(''_id'', i)] (Some [key]) col = (res, ?col')"
      by (simp add: coll_find_one_def stored_record_def res_def)
    have fc: "(case res of
                 None \<Rightarrow> False
               | Some r \<Rightarrow> r \<noteq> [] \<and>
                   (case map_of r key of None \<Rightarrow> False | Some stored \<Rightarrow> \<not> py_eq stored v))
              = field_changed (stored_record col i) key v"
      unfolding res_def by (rule find_one_changed)
    note IH = Cons.IH[OF Cons.prems(1) c Cons.prems(3)]
    show ?thesis
      using False kv Cons.prems(3)
      by (simp add: cm fo fc IH step_changed_def)
  qed
qed

lemma has_changed_loop_unbound:
  assumes "\<forall>name. collection_method cls self name = Inl (AttributeError name)"
  shows "has_changed_loop cls self items acc = (Inr acc, cls) \<or>
         has_changed_loop cls self items acc = (Inl (AttributeError ''find_one''), cls)"
proof (induction items)
  case Nil
  then show ?case by simp
next
  case (Cons kv items)
  obtain key v where kv: "kv = (key, v)" by (cases kv)
  have cm: "collection_method cls self ''find_one'' = Inl (AttributeError ''find_one'')"
    using assms by blast
  show ?case
  proof (cases "key = ''_id''")
    case True
    then show ?thesis using Cons.IH kv by simp
  next
    case False
    then show ?thesis using cm kv by simp
  qed
qed




subsection \<open>Validation\<close>



subsection \<open>Saving a persisted instance\<close>

lemma fold_step_changed_None: "fold (step_changed None) items acc = acc"
  by (induction items arbitrary: acc) (simp_all add: step_changed_def field_changed_def)

lemma update_first_found:
  "List.find (matches flt) ds = Some r \<Longrightarrow> snd (update_first flt upd ds) = 1"
  by (induction ds) (auto split: if_splits prod.splits)

lemma validate_fields_no_document: "validate_fields sch self \<noteq> Inl (ValueError_no_document j)"
  by (induction sch self rule: validate_fields.induct) (auto simp: Let_def split: option.splits)

lemma validate_unknown_no_document: "validate_unknown sch ks \<noteq> Inl (ValueError_no_document j)"
  by (induction ks) auto

lemma validate_no_document: "validate sch self \<noteq> Inl (ValueError_no_document j)"
  using validate_fields_no_document validate_unknown_no_document
  by (auto simp: validate_def split: sum.splits)

lemma validate_val_no_document: "validate_val v self \<noteq> Inl (ValueError_no_document j)"
proof -
  have f: "validate_fields_val d self \<noteq> Inl (ValueError_no_document j)" for d
    by (induction d self rule: validate_fields_val.induct)
      (auto simp: Let_def split: val.splits)
  have u: "validate_unknown_val d ks \<noteq> Inl (ValueError_no_document j)" for d ks
    by (induction ks) auto
  show ?thesis using f u by (auto simp: validate_val_def split: val.splits sum.splits)
qed

lemma run_validation_no_document: "run_validation cls self \<noteq> Inl (ValueError_no_document j)"
  using validate_no_document validate_val_no_document
  by (auto simp: run_validation_def self_method_def split: option.splits sum.splits)

lemma save_existing:
  assumes nc: "map_of self ''collection'' = None" and nh: "map_of self ''_has_changed'' = None"
    and c: "collection cls = Some col"
    and g: "getattr self ''_id'' = Inr i" and i: "i \<noteq> VNone" and v: "passes_validation cls self"
  shows "save cls self =
     (if fold (step_changed (stored_record col i)) self [] = []
      then (None, self, cls\<lparr>collection := Some (col\<lparr>oplog := oplog col @ read_ops i self\<rparr>)\<rparr>)
      else (case coll_update_one [(''_id'', i)] (fold (step_changed (stored_record col i)) self [])
                   (col\<lparr>oplog := oplog col @ read_ops i self\<rparr>) of
              (matched_count, col'') \<Rightarrow>
                if matched_count = 0
                then (Some (ValueError_no_document i), self, cls\<lparr>collection := Some col''\<rparr>)
                else (None, self, cls\<lparr>collection := Some col''\<rparr>)))"
proof -
  have notnone: "is_None (self_collection cls self) = False"
    using nc c by (simp add: is_None_def self_collection_def)
  have val: "run_validation cls self = Inr ()"
    using v by (simp add: passes_validation_def)
  have sm: "self_method self ''_has_changed'' = None"
    using nh by (simp add: self_method_def)
  have hc: "has_changed cls self =
      (Inr (fold (step_changed (stored_record col i)) self []),
       cls\<lparr>collection := Some (col\<lparr>oplog := oplog col @ read_ops i self\<rparr>)\<rparr>)"
    unfolding has_changed_def has_changed_loop_eq[OF nc c g] read_ops_def ..
  have cm: "collection_method
      (cls\<lparr>collection := Some (col\<lparr>oplog := oplog col @ read_ops i self\<rparr>)\<rparr>) self ''update_one''
      = Inr (col\<lparr>oplog := oplog col @ read_ops i self\<rparr>)"
    by (rule collection_method_bound[OF nc]) simp
  show ?thesis
    using i notnone val g sm hc cm
    by (cases i) (simp_all add: save_def split: prod.splits)
qed



lemma save_persisted_unbound:
  assumes "\<not> is_None (self_collection cls self)" and "run_validation cls self = Inr ()"
    and "getattr self ''_id'' = Inr i" and "i \<noteq> VNone"
    and "\<forall>name. collection_method cls self name = Inl (AttributeError name)"
  shows "snd (snd (save cls self)) = cls \<and>
         (fst (save cls self) = None \<or>
          fst (save cls self) = Some (AttributeError ''find_one'') \<or>
          fst (save cls self) = Some (TypeError_not_callable ''_has_changed''))"
proof -
  have "has_changed cls self = (Inr [], cls) \<or>
        has_changed cls self = (Inl (AttributeError ''find_one''), cls)"
    unfolding has_changed_def by (rule has_changed_loop_unbound[OF assms(5)])
  then show ?thesis
    using assms(1-4)
    by (cases i) (auto simp: save_def self_method_def split: option.splits)
qed

subsection \<open>Saving a new instance\<close>









subsection \<open>The connection loop\<close>

lemma init_db_loop_attempts:
  "length (filter is_attempt (snd (init_db_loop server retries retry_delay m i tr)))
     \<le> length (filter is_attempt tr) + m"
proof (induction m arbitrary: i tr)
  case 0
  then show ?case by simp
next
  case (Suc m)
  show ?case
  proof (cases "server i")
    case (Connected c)
    then show ?thesis by simp
  next
    case (ServerSelectionTimeoutError e)
    then show ?thesis
      using Suc.IH[of "Suc i" "tr @ [Attempt i, Sleep (retry_delay ^ i)]"] by simp
  next
    case (OtherError e)
    then show ?thesis by simp
  qed
qed

lemma init_db_loop_timeouts:
  assumes "\<forall>j<k. \<exists>e. server (i + j) = ServerSelectionTimeoutError e"
    and "k < m" and "0 \<le> retry_delay" and "int (i + m) = retries"
  shows "init_db_loop server retries retry_delay m i tr =
         init_db_loop server retries retry_delay (m - k) (i + k)
           (tr @ concat (map (\<lambda>j. [Attempt j, Sleep (retry_delay ^ j)]) [i..<i + k]))"
  using assms
proof (induction k arbitrary: i m tr)
  case 0
  then show ?case by simp
next
  case (Suc k)
  from Suc.prems(2) obtain m' where m: "m = Suc m'" by (cases m) auto
  from Suc.prems(1) obtain e where e: "server i = ServerSelectionTimeoutError e"
    by (metis add.right_neutral zero_less_Suc)
  have notlast: "(int i = retries - 1) = False" using Suc.prems(2,4) by auto
  have nonneg: "(retry_delay ^ i < 0) = False" using Suc.prems(3) by (simp add: not_less)
  have step: "init_db_loop server retries retry_delay m i tr =
      init_db_loop server retries retry_delay m' (Suc i) (tr @ [Attempt i, Sleep (retry_delay ^ i)])"
    by (simp only: m init_db_loop.simps e attempt.case notlast nonneg if_False)
  have rest: "\<forall>j<k. \<exists>e. server (Suc i + j) = ServerSelectionTimeoutError e"
    using Suc.prems(1) by (metis Suc_less_eq add_Suc_shift)
  have km: "k < m'" using Suc.prems(2) m by simp
  have tot: "int (Suc i + m') = retries" using Suc.prems(4) m by simp
  have upt: "[i..<i + Suc k] = i # [Suc i..<Suc i + k]"
    by (simp add: upt_rec)
  show ?case
    unfolding step Suc.IH[OF rest km Suc.prems(3) tot] upt
    using m by simp
qed

subsection \<open>Inserting many\<close>






lemma passes_validation_collection [simp]:
  "passes_validation (cls\<lparr>collection := c\<rparr>) self = passes_validation cls self"
proof -
  have "self_schema (cls\<lparr>collection := c\<rparr>) self = self_schema cls self"
    by (simp add: self_schema_def split: option.splits)
  then have "run_validation (cls\<lparr>collection := c\<rparr>) self = run_validation cls self"
    by (auto simp: run_validation_def split: option.splits sum.splits)
  then show ?thesis by (simp add: passes_validation_def)
qed






section \<open>The claims\<close>

subsection \<open>C1: what \<^verbatim>\<open>changedFields()\<close> reports\<close>

text \<open>
  C1 does not hold of the code. \<^verbatim>\<open>_has_changed\<close> skips a field whenever the read
  returns no record or a record without the field (\<^verbatim>\<open>result and key in result\<close>). So a
  field added in memory is not reported where \<^verbatim>\<open>changedFields()\<close> of the spec reports
  it, and the update of \<^verbatim>\<open>save\<close> never writes it; and for a null identity on an empty
  collection nothing is reported where the spec treats every field as changed, so that
  \<^verbatim>\<open>is_saved\<close> is true of an instance that was never saved, against its docstring.
\<close>

theorem has_changed_misses_new_and_unsaved_fields:
  "fst (has_changed
     \<lparr>collection = Some \<lparr>docs = [[(''_id'', VOid 1), (''a'', VInt 1)]],
                          next_oid = 2, oplog = []\<rparr>, schema = None\<rparr>
     [(''_id'', VOid 1), (''a'', VInt 1), (''b'', VInt 2)]) = Inr []
   \<and> changedFields_spec \<lparr>docs = [[(''_id'', VOid 1), (''a'', VInt 1)]], next_oid = 2, oplog = []\<rparr>
       [(''_id'', VOid 1), (''a'', VInt 1), (''b'', VInt 2)] = [(''b'', VInt 2)]
   \<and> fst (has_changed
     \<lparr>collection = Some \<lparr>docs = [], next_oid = 0, oplog = []\<rparr>, schema = None\<rparr>
     [(''_id'', VNone), (''a'', VInt 1)]) = Inr []
   \<and> changedFields_spec \<lparr>docs = [], next_oid = 0, oplog = []\<rparr>
       [(''_id'', VNone), (''a'', VInt 1)] = [(''a'', VInt 1)]
   \<and> fst (is_saved
     \<lparr>collection = Some \<lparr>docs = [], next_oid = 0, oplog = []\<rparr>, schema = None\<rparr>
     [(''_id'', VNone), (''a'', VInt 1)]) = Inr True"
  by (simp add: is_saved_def self_method_def has_changed_def collection_method_def
      self_collection_def coll_find_one_def getattr_def matches_def match_value_def
      project_def changedFields_spec_def stored_record_def)

subsection \<open>C2: saving a new document\<close>


text \<open>The theorem at a class with a schema and one record stored before.\<close>



subsection \<open>C3: saving without changes\<close>


text \<open>The theorem at two calls of \<^verbatim>\<open>save\<close> on an instance as it was fetched.\<close>


text \<open>
  C3 as stated does not ask for the validation to pass. An instance that equals its
  stored record has no changed field, yet \<^verbatim>\<open>save\<close> runs the validation first and
  fails when the record does not fit the schema.
\<close>


subsection \<open>C4: the missing-document error\<close>

text \<open>
  C4 does not hold of the code. \<^verbatim>\<open>save\<close> never raises the missing-document error:
  when no stored record matches the identity, \<^verbatim>\<open>_has_changed\<close> reads nothing back and
  reports no change, so \<^verbatim>\<open>save\<close> returns before \<^verbatim>\<open>update_one\<close>; and when a change
  is reported a record matched, so the matched count is not zero. At an instance with
  identity 7 on an empty collection \<^verbatim>\<open>save\<close> returns the instance.
\<close>

theorem save_never_raises_missing_document:
  "fst (save cls self) \<noteq> Some (ValueError_no_document j)
   \<and> save \<lparr>collection = Some \<lparr>docs = [], next_oid = 0, oplog = []\<rparr>, schema = None\<rparr>
        [(''_id'', VOid 7), (''name'', VStr ''Alice'')]
     = (None, [(''_id'', VOid 7), (''name'', VStr ''Alice'')],
        \<lparr>collection = Some \<lparr>docs = [], next_oid = 0,
                             oplog = [FindOne [(''_id'', VOid 7)] (Some [''name''])]\<rparr>,
           schema = None\<rparr>)"
proof -
  have general: "fst (save cls self) \<noteq> Some (ValueError_no_document j)"
  proof (cases "is_None (self_collection cls self)")
    case True
    then show ?thesis by (simp add: save_def)
  next
    case notnone: False
    show ?thesis
    proof (cases "run_validation cls self")
      case (Inl e)
      then show ?thesis
        using notnone run_validation_no_document[of cls self j] by (auto simp: save_def)
    next
      case (Inr u)
      then have val: "run_validation cls self = Inr ()" by simp
      then have v: "passes_validation cls self" by (simp add: passes_validation_def)
      show ?thesis
      proof (cases "getattr self ''_id''")
        case (Inl e)
        then have "e = AttributeError ''_id''"
          by (auto simp: getattr_def split: option.splits)
        then show ?thesis using notnone val Inl by (simp add: save_def)
      next
        case (Inr i)
        show ?thesis
        proof (cases "i = VNone")
          case True
          then show ?thesis
            using notnone val Inr
            by (auto simp: save_def coll_insert_one_def collection_method_def
                split: option.splits if_splits sum.splits)
        next
          case False
          from collection_method_cases[of self cls] show ?thesis
          proof
            assume "map_of self ''collection'' = None \<and> (\<exists>col. collection cls = Some col)"
            then obtain col where nc: "map_of self ''collection'' = None"
              and c: "collection cls = Some col" by blast
            show ?thesis
            proof (cases "map_of self ''_has_changed''")
              case (Some a)
              then show ?thesis
                using notnone val Inr False by (cases i) (simp_all add: save_def self_method_def)
            next
              case None
              let ?ch = "fold (step_changed (stored_record col i)) self []"
              let ?col' = "col\<lparr>oplog := oplog col @ read_ops i self\<rparr>"
              note se = save_existing[OF nc None c Inr False v]
              show ?thesis
              proof (cases "?ch = []")
                case True
                then show ?thesis using se by simp
              next
                case ne: False
                then have "stored_record col i \<noteq> None"
                  using fold_step_changed_None[of self "[]"]
                  by (cases "stored_record col i") auto
                then obtain r where "List.find (matches [(''_id'', i)]) (docs ?col') = Some r"
                  by (auto simp: stored_record_def)
                then have "snd (update_first [(''_id'', i)] ?ch (docs ?col')) = 1"
                  by (rule update_first_found)
                then have "fst (coll_update_one [(''_id'', i)] ?ch ?col') = 1"
                  by (auto simp: coll_update_one_def split: prod.splits)
                then show ?thesis
                  using se ne by (auto split: prod.splits)
              qed
            qed
          next
            assume "\<forall>name. collection_method cls self name = Inl (AttributeError name)"
            then show ?thesis
              using save_persisted_unbound[OF notnone val Inr False] by auto
          qed
        qed
      qed
    qed
  qed
  have concrete: "save \<lparr>collection = Some \<lparr>docs = [], next_oid = 0, oplog = []\<rparr>, schema = None\<rparr>
        [(''_id'', VOid 7), (''name'', VStr ''Alice'')]
     = (None, [(''_id'', VOid 7), (''name'', VStr ''Alice'')],
        \<lparr>collection = Some \<lparr>docs = [], next_oid = 0,
                             oplog = [FindOne [(''_id'', VOid 7)] (Some [''name''])]\<rparr>,
           schema = None\<rparr>)"
    by (simp add: save_def is_None_def self_collection_def run_validation_def self_schema_def
        self_method_def collection_method_def getattr_def has_changed_def coll_find_one_def)
  from general concrete show ?thesis by simp
qed

subsection \<open>C5: the order of the validation checks\<close>



subsection \<open>C6: validation fails before any store operation\<close>

text \<open>
  C6. When the validation step of \<^verbatim>\<open>save\<close> fails, \<^verbatim>\<open>save\<close> raises that failure
  (after the check that \<^verbatim>\<open>self.collection\<close> is not null), and neither the instance nor
  the class has changed: the stored records are the same and the log of operations
  issued against the collection has no new entry. For a class declared with a schema
  and an instance without fields named \<^verbatim>\<open>schema\<close> or \<^verbatim>\<open>validate\<close>, the validation
  step is \<^verbatim>\<open>_validate\<close> against that schema.
\<close>

theorem save_validation_failure_issues_no_store_operation:
  "(run_validation cls self = Inl e \<longrightarrow>
      snd (save cls self) = (self, cls) \<and>
      fst (save cls self) =
        (if is_None (self_collection cls self) then Some MongoDBCollectionError else Some e))
   \<and> (schema cls = Some sch \<and> map_of self ''schema'' = None \<and> map_of self ''validate'' = None \<longrightarrow>
        run_validation cls self = validate sch self)"
  by (simp add: save_def run_validation_unshadowed)

text \<open>The theorem at an instance that lacks a required field.\<close>

theorem save_validation_failure_issues_no_store_operation_witness:
  "save \<lparr>collection = Some \<lparr>docs = [], next_oid = 0, oplog = []\<rparr>,
         schema = Some [(''first_name'', \<lparr>ftype = Some TStr, required = True, validator = None\<rparr>)]\<rparr>
        [(''_id'', VNone), (''last_name'', VStr ''Svensson'')]
   = (Some (ValueError_required ''first_name''),
      [(''_id'', VNone), (''last_name'', VStr ''Svensson'')],
      \<lparr>collection = Some \<lparr>docs = [], next_oid = 0, oplog = []\<rparr>,
         schema = Some [(''first_name'', \<lparr>ftype = Some TStr, required = True, validator = None\<rparr>)]\<rparr>)"
  using save_validation_failure_issues_no_store_operation
    [of "\<lparr>collection = Some \<lparr>docs = [], next_oid = 0, oplog = []\<rparr>,
         schema = Some [(''first_name'', \<lparr>ftype = Some TStr, required = True, validator = None\<rparr>)]\<rparr>"
        "[(''_id'', VNone), (''last_name'', VStr ''Svensson'')]"
        "ValueError_required ''first_name''"
        "[(''first_name'', \<lparr>ftype = Some TStr, required = True, validator = None\<rparr>)]"]
  by (simp add: validate_def dict_get_def prod_eq_iff is_None_def self_collection_def)

subsection \<open>C7: connecting with retries\<close>

text \<open>
  C7. \<^verbatim>\<open>init_db\<close> makes at most \<open>retries\<close> attempts. When the attempts before attempt
  \<open>k\<close> time out and attempt \<open>k\<close> connects, the run is the schedule up to \<open>k\<close>: after
  each failed attempt \<open>i\<close> a sleep of \<open>retry_delay ^ i\<close> seconds, the index starting
  at 0. When every one of the \<open>retries\<close> attempts times out, the run is the schedule
  up to the last attempt and \<^verbatim>\<open>MongoDBConnectionError\<close> is raised from the last
  timeout. The delay base is non-negative, as a sleep length must be, and the last
  part needs at least one attempt.
\<close>

theorem init_db_retries_with_exponential_delays:
  "length (filter is_attempt (snd (init_db server retries retry_delay))) \<le> nat retries
   \<and> (0 \<le> retry_delay \<and> k < nat retries \<and>
        (\<forall>j<k. \<exists>e. server j = ServerSelectionTimeoutError e) \<and> server k = Connected client \<longrightarrow>
        init_db server retries retry_delay = (Inr client, schedule retry_delay k))
   \<and> (0 \<le> retry_delay \<and> 0 < retries \<and>
        (\<forall>j<nat retries. server j = ServerSelectionTimeoutError (cause j)) \<longrightarrow>
        init_db server retries retry_delay =
          (Inl (MongoDBConnectionError (cause (nat retries - 1))),
           schedule retry_delay (nat retries - 1)))"
proof (intro conjI impI)
  show "length (filter is_attempt (snd (init_db server retries retry_delay))) \<le> nat retries"
    using init_db_loop_attempts[of server retries retry_delay "nat retries" 0 "[]"]
    by (simp add: init_db_def)
next
  assume a: "0 \<le> retry_delay \<and> k < nat retries \<and>
        (\<forall>j<k. \<exists>e. server j = ServerSelectionTimeoutError e) \<and> server k = Connected client"
  then have t: "\<forall>j<k. \<exists>e. server (0 + j) = ServerSelectionTimeoutError e" by simp
  from a have tot: "int (0 + nat retries) = retries" by auto
  from a obtain m' where m: "nat retries - k = Suc m'" by (cases "nat retries - k") auto
  show "init_db server retries retry_delay = (Inr client, schedule retry_delay k)"
    unfolding init_db_def
      init_db_loop_timeouts[OF t conjunct1[OF conjunct2[OF a]] conjunct1[OF a] tot, of "[]"] m
    using a by (simp add: schedule_def)
next
  assume a: "0 \<le> retry_delay \<and> 0 < retries \<and>
        (\<forall>j<nat retries. server j = ServerSelectionTimeoutError (cause j))"
  let ?k = "nat retries - 1"
  have k: "?k < nat retries" using a by auto
  have t: "\<forall>j<?k. \<exists>e. server (0 + j) = ServerSelectionTimeoutError e" using a by auto
  have tot: "int (0 + nat retries) = retries" using a by auto
  have last: "server ?k = ServerSelectionTimeoutError (cause ?k)" using a k by blast
  have m: "nat retries - ?k = Suc 0" using a by auto
  have il: "int ?k = retries - 1" using a by auto
  show "init_db server retries retry_delay =
          (Inl (MongoDBConnectionError (cause ?k)), schedule retry_delay ?k)"
    unfolding init_db_def init_db_loop_timeouts[OF t k conjunct1[OF a] tot, of "[]"] m
    using last il by (simp add: schedule_def)
qed

text \<open>
  The theorem for the default base 2: four attempts that all time out sleep 1, 2 and 4
  seconds and raise from the fourth timeout; two timeouts and a success connect on the
  third attempt after sleeps of 1 and 2 seconds.
\<close>

theorem init_db_retries_with_exponential_delays_witness:
  "init_db (\<lambda>i. ServerSelectionTimeoutError (100 + i) :: (unit, nat) attempt) 4 2
     = (Inl (MongoDBConnectionError 103),
        [Attempt 0, Sleep 1, Attempt 1, Sleep 2, Attempt 2, Sleep 4, Attempt 3])
   \<and> init_db (\<lambda>i. if i < 2 then ServerSelectionTimeoutError (100 + i) else Connected ()) 3 2
     = (Inr (), [Attempt 0, Sleep 1, Attempt 1, Sleep 2, Attempt 2])"
  using init_db_retries_with_exponential_delays
      [of "\<lambda>i. ServerSelectionTimeoutError (100 + i) :: (unit, nat) attempt" 4 2 0 "()"
          "\<lambda>j. 100 + j"]
    init_db_retries_with_exponential_delays
      [of "\<lambda>i. if i < 2 then ServerSelectionTimeoutError (100 + i) else Connected ()" 3 2 2 "()"
          "\<lambda>j. 100 + j"]
  by (simp add: schedule_def eval_nat_numeral)

subsection \<open>C8: deleting by criteria\<close>

text \<open>
  C8 does not hold of the code. \<^verbatim>\<open>delete\<close> computes the same dict \<^verbatim>\<open>d\<close> as \<^verbatim>\<open>find\<close>
  and then calls \<^verbatim>\<open>delete_many(kwargs)\<close>: with one keyword whose value is a map,
  \<^verbatim>\<open>find\<close> filters by the map and returns the record, while \<^verbatim>\<open>delete\<close> filters by
  the keyword itself and removes nothing.
\<close>

theorem delete_ignores_the_criteria_map:
  "fst (Document_find
     \<lparr>collection = Some \<lparr>docs = [[(''_id'', VOid 1), (''name'', VStr ''Alice'')]],
                          next_oid = 2, oplog = []\<rparr>, schema = None\<rparr>
     [(''criteria'', VDict [(''name'', VStr ''Alice'')])])
     = Inr [[(''_id'', VOid 1), (''name'', VStr ''Alice'')]]
   \<and> Document_delete
     \<lparr>collection = Some \<lparr>docs = [[(''_id'', VOid 1), (''name'', VStr ''Alice'')]],
                          next_oid = 2, oplog = []\<rparr>, schema = None\<rparr>
     [(''criteria'', VDict [(''name'', VStr ''Alice'')])]
     = (None,
        \<lparr>collection = Some \<lparr>docs = [[(''_id'', VOid 1), (''name'', VStr ''Alice'')]],
                             next_oid = 2,
                             oplog = [DeleteMany [(''criteria'', VDict [(''name'', VStr ''Alice'')])]]\<rparr>,
           schema = None\<rparr>)"
  by (simp add: Document_find_def Document_delete_def criteria_def coll_find_def
      coll_delete_many_def matches_def match_value_def Document_init_def dict_update_def Let_def)

subsection \<open>C9: looking up an identity that is not stored\<close>

text \<open>
  C9. On a class with a collection, \<^verbatim>\<open>get_by_id\<close> of a well-formed identity that no
  stored record matches returns an instance whose only field is a null identity, a
  truthy value and not \<^verbatim>\<open>None\<close>; and \<^verbatim>\<open>get_by_id\<close> returns \<^verbatim>\<open>None\<close> exactly when
  \<^verbatim>\<open>bson.ObjectId\<close> rejects the string.
\<close>

theorem get_by_id_unmatched_returns_empty_instance:
  assumes "collection cls = Some col"
  shows "(ObjectId s = Some n \<and> stored_record col (VOid n) = None \<longrightarrow>
            fst (get_by_id cls s) = Inr (Some [(''_id'', VNone)]) \<and> truthy [(''_id'', VNone)])
         \<and> ((fst (get_by_id cls s) = Inr None) = (ObjectId s = None))"
  using assms
  by (auto simp: get_by_id_def coll_find_one_def stored_record_def Document_init_def
      dict_update_def truthy_def split: option.splits)

text \<open>The theorem at a well-formed identity that is not stored and at a malformed one.\<close>

theorem get_by_id_unmatched_returns_empty_instance_witness:
  "fst (get_by_id
     \<lparr>collection = Some \<lparr>docs = [[(''_id'', VOid 7), (''name'', VStr ''Alice'')]],
                          next_oid = 8, oplog = []\<rparr>, schema = None\<rparr>
     ''00000000000000000000002a'') = Inr (Some [(''_id'', VNone)])
   \<and> fst (get_by_id
     \<lparr>collection = Some \<lparr>docs = [[(''_id'', VOid 7), (''name'', VStr ''Alice'')]],
                          next_oid = 8, oplog = []\<rparr>, schema = None\<rparr>
     ''not-an-id'') = Inr None"
  using get_by_id_unmatched_returns_empty_instance
    [of "\<lparr>collection = Some \<lparr>docs = [[(''_id'', VOid 7), (''name'', VStr ''Alice'')]],
                          next_oid = 8, oplog = []\<rparr>, schema = None\<rparr>"
        "\<lparr>docs = [[(''_id'', VOid 7), (''name'', VStr ''Alice'')]], next_oid = 8, oplog = []\<rparr>"
        "''00000000000000000000002a''" 42]
    get_by_id_unmatched_returns_empty_instance
    [of "\<lparr>collection = Some \<lparr>docs = [[(''_id'', VOid 7), (''name'', VStr ''Alice'')]],
                          next_oid = 8, oplog = []\<rparr>, schema = None\<rparr>"
        "\<lparr>docs = [[(''_id'', VOid 7), (''name'', VStr ''Alice'')]], next_oid = 8, oplog = []\<rparr>"
        "''not-an-id''"]
  by (simp add: ObjectId_def hex_digit_def stored_record_def matches_def match_value_def)

subsection \<open>C10: \<^verbatim>\<open>insert_many\<close> is sequential and not atomic\<close>




end
